theory Spec2Isabelle
  imports Main "HOL-Library.Word"
begin

section \<open>JavaScript values used by the chat core\<close>

text \<open>
  A JavaScript string is a sequence of UTF-16 code units; \<open>s.length\<close> counts code
  units and \<open>!s\<close> holds exactly for the empty string. String literals of the source
  are ASCII and are embedded with \<open>lit\<close>.
\<close>

type_synonym jschar = "16 word"
type_synonym jsstring = "jschar list"

definition lit :: "string \<Rightarrow> jsstring" where
  "lit s = map (\<lambda>c. of_nat (of_char c)) s"

text \<open>
  A value that may be \<open>undefined\<close> or \<open>null\<close>: the argument type
  \<open>string | null | undefined\<close> of \<open>parseDate\<close> and \<open>parseJsonSafely\<close>.
\<close>

datatype 'a nullable = Undefined | Null | Defined 'a

text \<open>
  A \<open>Date\<close> object holds a time value in milliseconds since the epoch, or NaN
  (an invalid date).
\<close>

datatype jsdate = Date int | InvalidDate

datatype js_error = RangeError

text \<open>
  The built-ins of the JavaScript runtime that the transform module calls are not part of
  the repository; they are parameters of the model.
  \<^item> \<open>Date_parse s\<close> is the time value of \<open>new Date(s)\<close> for a string \<open>s\<close>,
    \<open>None\<close> when it is NaN;
  \<^item> \<open>toISOString t\<close> is \<open>d.toISOString()\<close> for a valid date with time value \<open>t\<close>
    (on an invalid date the built-in throws a RangeError, which \<open>createDbMessage\<close>
    below makes explicit);
  \<^item> \<open>JSON_parse s\<close> is \<open>JSON.parse(s)\<close> at the type \<open>string[]\<close> the source
    gives it, \<open>None\<close> when it throws a SyntaxError;
  \<^item> \<open>JSON_stringify xs\<close> is \<open>JSON.stringify(xs)\<close> for an array of strings.
\<close>

record runtime =
  Date_parse :: "jsstring \<Rightarrow> int option"
  toISOString :: "int \<Rightarrow> jsstring"
  JSON_parse :: "jsstring \<Rightarrow> jsstring list option"
  JSON_stringify :: "jsstring list \<Rightarrow> jsstring"

section \<open>Data model\<close>

text \<open>The domain shapes of \<open>types/chat.ts\<close>. Optional fields are options.\<close>

datatype role = User | Assistant

record message =
  m_id :: jsstring
  m_type :: role
  m_content :: jsstring
  m_timestamp :: jsdate
  m_isLoading :: "bool option"
  m_sources :: "jsstring list option"

record conversation =
  c_id :: jsstring
  c_title :: jsstring
  c_messages :: "message list"
  c_createdAt :: jsdate
  c_updatedAt :: jsdate

text \<open>
  The record shapes of the persistent store. The \<open>type\<close> column is a string at run time,
  which is why \<open>transformDbMessage\<close> validates it.
\<close>

record db_conversation =
  dbc_id :: jsstring
  dbc_user_id :: jsstring
  dbc_title :: jsstring
  dbc_created_at :: "jsstring nullable"
  dbc_updated_at :: "jsstring nullable"

record db_message =
  dbm_id :: jsstring
  dbm_conversation_id :: jsstring
  dbm_user_id :: jsstring
  dbm_type :: jsstring
  dbm_content :: jsstring
  dbm_timestamp :: "jsstring nullable"
  dbm_sources :: "jsstring nullable"

text \<open>What \<open>createDbConversation\<close> builds: a conversation record without its dates.\<close>

record db_conversation_data =
  dbn_id :: jsstring
  dbn_user_id :: jsstring
  dbn_title :: jsstring

section \<open>Record transform layer\<close>

text \<open>\<open>parseDate\<close>: \<open>null\<close> for a falsy argument or a date whose time is NaN.\<close>

fun parseDate :: "runtime \<Rightarrow> jsstring nullable \<Rightarrow> int option" where
  "parseDate rt Undefined = None"
| "parseDate rt Null = None"
| "parseDate rt (Defined s) = (if s = [] then None else Date_parse rt s)"

text \<open>\<open>parseJsonSafely\<close>: the fallback for a falsy argument or a parse error.\<close>

fun parseJsonSafely :: "runtime \<Rightarrow> jsstring nullable \<Rightarrow> jsstring list \<Rightarrow> jsstring list" where
  "parseJsonSafely rt Undefined fallback = fallback"
| "parseJsonSafely rt Null fallback = fallback"
| "parseJsonSafely rt (Defined s) fallback =
     (if s = [] then fallback
      else case JSON_parse rt s of None \<Rightarrow> fallback | Some v \<Rightarrow> v)"

text \<open>
  \<open>transformDbConversation\<close>. \<open>now\<close> is the reading of \<open>new Date()\<close>; a parsed
  date object is truthy, so \<open>createdAt || now\<close> is \<open>now\<close> exactly when parsing failed.
\<close>

definition transformDbConversation :: "runtime \<Rightarrow> int \<Rightarrow> db_conversation \<Rightarrow> conversation option" where
  "transformDbConversation rt now dbConversation =
     (if dbc_id dbConversation = [] \<or> dbc_title dbConversation = [] then None
      else
        let createdAt = parseDate rt (dbc_created_at dbConversation);
            updatedAt = parseDate rt (dbc_updated_at dbConversation)
        in Some \<lparr> c_id = dbc_id dbConversation,
                  c_title = dbc_title dbConversation,
                  c_messages = [],
                  c_createdAt = Date (case createdAt of None \<Rightarrow> now | Some t \<Rightarrow> t),
                  c_updatedAt = Date (case updatedAt of None \<Rightarrow> now | Some t \<Rightarrow> t) \<rparr>)"

text \<open>
  \<open>transformDbMessage\<close>: required fields, then the type, then the timestamp, then the
  sources. The type has just been checked to be one of the two role strings.
\<close>

definition transformDbMessage :: "runtime \<Rightarrow> db_message \<Rightarrow> message option" where
  "transformDbMessage rt dbMessage =
     (if dbm_id dbMessage = [] \<or> dbm_content dbMessage = [] \<or> dbm_type dbMessage = [] then None
      else if dbm_type dbMessage \<noteq> lit ''user'' \<and> dbm_type dbMessage \<noteq> lit ''assistant'' then None
      else case parseDate rt (dbm_timestamp dbMessage) of
        None \<Rightarrow> None
      | Some timestamp \<Rightarrow>
          let sources = parseJsonSafely rt (dbm_sources dbMessage) []
          in Some \<lparr> m_id = dbm_id dbMessage,
                    m_type = (if dbm_type dbMessage = lit ''user'' then User else Assistant),
                    m_content = dbm_content dbMessage,
                    m_timestamp = Date timestamp,
                    m_isLoading = None,
                    m_sources = (if length sources > 0 then Some sources else None) \<rparr>)"





definition createDbConversation :: "jsstring \<Rightarrow> jsstring \<Rightarrow> jsstring \<Rightarrow> db_conversation_data" where
  "createDbConversation i userId title = \<lparr> dbn_id = i, dbn_user_id = userId, dbn_title = title \<rparr>"

text \<open>
  \<open>createDbMessage\<close>. The sources are serialised when present and non-empty, else
  \<open>null\<close> is stored; \<open>toISOString\<close> throws on an invalid date.
\<close>

definition role_string :: "role \<Rightarrow> jsstring" where
  "role_string r = (case r of User \<Rightarrow> lit ''user'' | Assistant \<Rightarrow> lit ''assistant'')"

definition createDbMessage :: "runtime \<Rightarrow> message \<Rightarrow> jsstring \<Rightarrow> jsstring \<Rightarrow> js_error + db_message" where
  "createDbMessage rt message conversationId userId =
     (let sourcesJson =
            (case m_sources message of
               None \<Rightarrow> Null
             | Some srcs \<Rightarrow> if length srcs > 0 then Defined (JSON_stringify rt srcs) else Null)
      in case m_timestamp message of
           InvalidDate \<Rightarrow> Inl RangeError
         | Date t \<Rightarrow>
             Inr \<lparr> dbm_id = m_id message,
                   dbm_conversation_id = conversationId,
                   dbm_user_id = userId,
                   dbm_type = role_string (m_type message),
                   dbm_content = m_content message,
                   dbm_timestamp = Defined (toISOString rt t),
                   dbm_sources = sourcesJson \<rparr>)"

section \<open>Conversation store\<close>

text \<open>
  The state of the \<open>useChat\<close> hook. Each operation reads the state it was started in
  and applies its updates in order (\<open>setConversations(prev => ...)\<close>); operations do
  not interleave. What an operation asks of its collaborators is returned as a list of
  effects in the order of the calls; how the collaborators answer is an input, and so
  are the results of \<open>generateId\<close> and the clock. The clock is read once per operation:
  every \<open>new Date()\<close> of one run gives the same instant. The start-up effect, the
  \<open>initialized\<close> flag and the abort controller (which \<open>sendMessage\<close> never sets) are
  left out; console output is not an effect.
\<close>

record auth_user =
  u_id :: jsstring
  u_email :: jsstring

record store =
  conversations :: "conversation list"
  currentConversationId :: "jsstring option"
  isLoading :: bool
  user :: "auth_user option"
  isAuthenticated :: bool

datatype effect =
    Messages_list jsstring
  | Messages_delete jsstring
  | Messages_create db_message
  | Conversations_create db_conversation_data
  | Conversations_update jsstring jsstring
  | Conversations_delete jsstring
  | StreamText "(role \<times> jsstring) list"
  | Toast jsstring jsstring

definition MAX_CONTEXT_MESSAGES :: nat where
  "MAX_CONTEXT_MESSAGES = 20"

text \<open>\<open>new Date(x)\<close> for a record column: \<open>null\<close> is the epoch, \<open>undefined\<close> is invalid.\<close>

fun newDate :: "runtime \<Rightarrow> jsstring nullable \<Rightarrow> jsdate" where
  "newDate rt Undefined = InvalidDate"
| "newDate rt Null = Date 0"
| "newDate rt (Defined s) = (case Date_parse rt s of None \<Rightarrow> InvalidDate | Some t \<Rightarrow> Date t)"

text \<open>
  \<open>createNewConversation\<close>. \<open>created\<close> is the answer of
  \<open>blink.db.conversations.create\<close> (\<open>None\<close> when it rejects), \<open>i\<close> the generated id.
\<close>

definition createNewConversation ::
  "runtime \<Rightarrow> db_conversation option \<Rightarrow> jsstring \<Rightarrow> int \<Rightarrow> store \<Rightarrow> conversation \<times> effect list" where
  "createNewConversation rt created i now st =
     (let title = lit ''New Chat'';
          local = \<lparr> c_id = i, c_title = title, c_messages = [],
                    c_createdAt = Date now, c_updatedAt = Date now \<rparr>
      in case (isAuthenticated st, user st) of
           (True, Some u) \<Rightarrow>
             (case created of
                Some convo \<Rightarrow>
                  (\<lparr> c_id = dbc_id convo, c_title = dbc_title convo, c_messages = [],
                     c_createdAt = newDate rt (dbc_created_at convo),
                     c_updatedAt = newDate rt (dbc_updated_at convo) \<rparr>,
                   [Conversations_create (createDbConversation i (u_id u) title)])
              | None \<Rightarrow>
                  (local,
                   [Conversations_create (createDbConversation i (u_id u) title),
                    Toast (lit ''Warning'')
                      (lit ''Failed to save conversation to database. Working in offline mode.'')]))
         | _ \<Rightarrow> (local, []))"

definition startNewConversation ::
  "runtime \<Rightarrow> db_conversation option \<Rightarrow> jsstring \<Rightarrow> int \<Rightarrow> store \<Rightarrow> store \<times> effect list" where
  "startNewConversation rt created i now st =
     (case createNewConversation rt created i now st of
        (newConversation, log) \<Rightarrow>
          (st\<lparr> conversations := newConversation # conversations st,
               currentConversationId := Some (c_id newConversation) \<rparr>, log))"

definition selectConversation :: "store \<Rightarrow> jsstring \<Rightarrow> store" where
  "selectConversation st i = st\<lparr> currentConversationId := Some i \<rparr>"

text \<open>
  \<open>deleteConversation\<close>. The answers of the store: the listed messages (\<open>None\<close> when
  the list call rejects), whether the delete of the \<open>k\<close>-th listed message resolves, and
  whether the delete of the conversation resolves. A rejected call throws; the
  \<open>catch\<close> block shows the error toast and nothing after the throwing call runs.
\<close>

record delete_remote =
  listed :: "db_message list option"
  messageDeleted :: "nat \<Rightarrow> bool"
  conversationDeleted :: bool

fun deleteMessages :: "(nat \<Rightarrow> bool) \<Rightarrow> nat \<Rightarrow> db_message list \<Rightarrow> bool \<times> effect list" where
  "deleteMessages ok k [] = (True, [])"
| "deleteMessages ok k (message # rest) =
     (if ok k
      then (case deleteMessages ok (Suc k) rest of
              (done, log) \<Rightarrow> (done, Messages_delete (dbm_id message) # log))
      else (False, [Messages_delete (dbm_id message)]))"

definition removeFromLocalState :: "store \<Rightarrow> jsstring \<Rightarrow> store" where
  "removeFromLocalState st i =
     st\<lparr> conversations := filter (\<lambda>c. c_id c \<noteq> i) (conversations st),
          currentConversationId :=
            (if currentConversationId st = Some i
             then (case filter (\<lambda>c. c_id c \<noteq> i) (conversations st) of
                     [] \<Rightarrow> None
                   | c # _ \<Rightarrow> Some (c_id c))
             else currentConversationId st) \<rparr>"

definition deleteFailedToast :: effect where
  "deleteFailedToast = Toast (lit ''Error'') (lit ''Failed to delete conversation'')"

definition deleteConversation :: "delete_remote \<Rightarrow> store \<Rightarrow> jsstring \<Rightarrow> store \<times> effect list" where
  "deleteConversation env st i =
     (case (isAuthenticated st, user st) of
        (True, Some u) \<Rightarrow>
          (case listed env of
             None \<Rightarrow> (st, [Messages_list i, deleteFailedToast])
           | Some messages \<Rightarrow>
               (case deleteMessages (messageDeleted env) 0 messages of
                  (False, log) \<Rightarrow> (st, Messages_list i # log @ [deleteFailedToast])
                | (True, log) \<Rightarrow>
                    if conversationDeleted env
                    then (removeFromLocalState st i,
                          Messages_list i # log @ [Conversations_delete i])
                    else (st, Messages_list i # log @ [Conversations_delete i, deleteFailedToast])))
      | _ \<Rightarrow> (removeFromLocalState st i, []))"

text \<open>
  The title of \<open>updateConversationTitle\<close>: \<open>substring(0, 47)\<close> and three dots when
  the seed is longer than 50 code units. A rejected remote update is only written to the
  console, so the answer of the store is not an input of \<open>updateConversationTitle\<close>.
\<close>

definition title :: "jsstring \<Rightarrow> jsstring" where
  "title firstMessage =
     (if length firstMessage > 50 then take 47 firstMessage @ lit ''...'' else firstMessage)"

definition updateConversationTitle ::
  "int \<Rightarrow> store \<Rightarrow> jsstring \<Rightarrow> jsstring \<Rightarrow> store \<times> effect list" where
  "updateConversationTitle now st conversationId firstMessage =
     (st\<lparr> conversations :=
            map (\<lambda>c. if c_id c = conversationId
                     then c\<lparr> c_title := title firstMessage, c_updatedAt := Date now \<rparr>
                     else c)
                (conversations st) \<rparr>,
      case (isAuthenticated st, user st) of
        (True, Some u) \<Rightarrow> [Conversations_update conversationId (title firstMessage)]
      | _ \<Rightarrow> [])"

text \<open>
  The updater that appends a message to one conversation; the source writes it three
  times (in \<open>addMessage\<close>, for the placeholder and for the error message).
\<close>

definition appendTo :: "jsstring \<Rightarrow> message \<Rightarrow> int \<Rightarrow> conversation list \<Rightarrow> conversation list" where
  "appendTo conversationId message now prev =
     map (\<lambda>c. if c_id c = conversationId
              then c\<lparr> c_messages := c_messages c @ [message], c_updatedAt := Date now \<rparr>
              else c)
         prev"

definition saveWarning :: "jsstring \<Rightarrow> effect" where
  "saveWarning description = Toast (lit ''Warning'') description"

text \<open>
  The remote half of \<open>addMessage\<close> and of the final save: nothing when not
  authenticated; a failure of \<open>createDbMessage\<close> or of the store is caught and shown.
\<close>

definition saveMessage ::
  "runtime \<Rightarrow> bool \<Rightarrow> store \<Rightarrow> jsstring \<Rightarrow> message \<Rightarrow> jsstring \<Rightarrow> effect list" where
  "saveMessage rt saved st conversationId message description =
     (case (isAuthenticated st, user st) of
        (True, Some u) \<Rightarrow>
          (case createDbMessage rt message conversationId (u_id u) of
             Inl e \<Rightarrow> [saveWarning description]
           | Inr dbMessageData \<Rightarrow>
               if saved then [Messages_create dbMessageData]
               else [Messages_create dbMessageData, saveWarning description])
      | _ \<Rightarrow> [])"

definition addMessage ::
  "runtime \<Rightarrow> bool \<Rightarrow> int \<Rightarrow> store \<Rightarrow> jsstring \<Rightarrow> message \<Rightarrow> store \<times> effect list" where
  "addMessage rt saved now st conversationId message =
     (st\<lparr> conversations := appendTo conversationId message now (conversations st) \<rparr>,
      saveMessage rt saved st conversationId message
        (lit ''Failed to save message to database. Your conversation may not persist.''))"

section \<open>Sending a message and folding the streamed answer\<close>

text \<open>
  \<open>String.prototype.trim\<close> removes the white space and line terminators of ECMAScript
  from both ends.
\<close>

definition isWhiteSpace :: "jschar \<Rightarrow> bool" where
  "isWhiteSpace c =
     (c = 0x0009 \<or> c = 0x000A \<or> c = 0x000B \<or> c = 0x000C \<or> c = 0x000D \<or> c = 0x0020 \<or>
      c = 0x00A0 \<or> c = 0x1680 \<or> (0x2000 \<le> c \<and> c \<le> 0x200A) \<or> c = 0x2028 \<or> c = 0x2029 \<or>
      c = 0x202F \<or> c = 0x205F \<or> c = 0x3000 \<or> c = 0xFEFF)"

definition trim :: "jsstring \<Rightarrow> jsstring" where
  "trim s = rev (dropWhile isWhiteSpace (rev (dropWhile isWhiteSpace s)))"

text \<open>
  \<open>xs.slice(-n)\<close>: the last \<open>n\<close> elements, all of them when there are fewer
  (and all of them for \<open>n = 0\<close>, since \<open>-0\<close> is the start index 0).
\<close>

definition slice_last :: "nat \<Rightarrow> 'a list \<Rightarrow> 'a list" where
  "slice_last n xs = (if n = 0 then xs else drop (length xs - n) xs)"

text \<open>
  What the outside answers during one run of \<open>sendMessage\<close>: the four results of
  \<open>generateId\<close> in the order of the call sites, the clock, the answer of the store to
  the creation of a conversation (\<open>None\<close> when it rejects), whether the two message
  saves resolve, the chunks the generation call delivers to its callback, and how the
  generation call ends: it rejects, or it resolves with its optional list of sources.
\<close>

datatype stream_result = Rejected | Resolved "jsstring list option"

record send_remote =
  newConversationId :: jsstring
  userMessageId :: jsstring
  assistantMessageId :: jsstring
  errorMessageId :: jsstring
  clock :: int
  createdConversation :: "db_conversation option"
  userMessageSaved :: bool
  assistantMessageSaved :: bool
  chunks :: "jsstring list"
  streamResult :: stream_result

text \<open>
  The chunk callback: the chunk is added to the accumulated text and the message with the
  assistant id gets the whole text, still loading.
\<close>

definition onChunk ::
  "jsstring \<Rightarrow> jsstring \<Rightarrow> int \<Rightarrow> jsstring \<times> conversation list \<Rightarrow> jsstring \<Rightarrow> jsstring \<times> conversation list" where
  "onChunk conversationId assistantId now acc chunk =
     (case acc of (streamingText, prev) \<Rightarrow>
        (streamingText @ chunk,
         map (\<lambda>c. if c_id c = conversationId
                  then c\<lparr> c_messages :=
                           map (\<lambda>m. if m_id m = assistantId
                                    then m\<lparr> m_content := streamingText @ chunk,
                                           m_isLoading := Some True \<rparr>
                                    else m)
                               (c_messages c),
                         c_updatedAt := Date now \<rparr>
                  else c)
             prev))"

text \<open>The final update: the text, no longer loading, and the sources.\<close>

definition finalUpdate ::
  "jsstring \<Rightarrow> jsstring \<Rightarrow> int \<Rightarrow> jsstring \<Rightarrow> jsstring list \<Rightarrow> conversation list \<Rightarrow> conversation list" where
  "finalUpdate conversationId assistantId now streamingText sources prev =
     map (\<lambda>c. if c_id c = conversationId
              then c\<lparr> c_messages :=
                       map (\<lambda>m. if m_id m = assistantId
                                then m\<lparr> m_content := streamingText,
                                       m_isLoading := Some False,
                                       m_sources := Some sources \<rparr>
                                else m)
                           (c_messages c),
                     c_updatedAt := Date now \<rparr>
              else c)
         prev"

definition errorText :: jsstring where
  "errorText =
     lit ''Sorry, I encountered an error while processing your request. Please try again.''"

text \<open>
  The body of \<open>sendMessage\<close> once the conversation is known: \<open>conversation\<close> is the
  conversation as it was when the operation started (or the new one), \<open>st\<close> the state
  with the new conversation already in it. Before the generation call nothing can throw
  (\<open>addMessage\<close> and \<open>updateConversationTitle\<close> catch their own failures), so the
  \<open>catch\<close> block runs exactly when the generation call rejects, after its chunks.
\<close>

definition sendTo ::
  "runtime \<Rightarrow> send_remote \<Rightarrow> store \<Rightarrow> jsstring \<Rightarrow> conversation \<Rightarrow> jsstring \<Rightarrow> store \<times> effect list" where
  "sendTo rt env st conversationId conversation content =
     (let now = clock env;
          userMessage = \<lparr> m_id = userMessageId env, m_type = User, m_content = content,
                          m_timestamp = Date now, m_isLoading = None, m_sources = None \<rparr>;
          added = addMessage rt (userMessageSaved env) now st conversationId userMessage;
          titled = (if length (c_messages conversation) = 0
                    then updateConversationTitle now (fst added) conversationId content
                    else (fst added, []));
          assistantMessage = \<lparr> m_id = assistantMessageId env, m_type = Assistant, m_content = [],
                               m_timestamp = Date now, m_isLoading = Some True,
                               m_sources = None \<rparr>;
          placed = appendTo conversationId assistantMessage now (conversations (fst titled));
          contextMessages =
            map (\<lambda>m. (if m_type m = User then User else Assistant, m_content m))
                (slice_last MAX_CONTEXT_MESSAGES (c_messages conversation));
          messagesForAI = contextMessages @ [(User, content)];
          streamed = foldl (onChunk conversationId (assistantMessageId env) now) ([], placed)
                       (chunks env);
          log = snd added @ snd titled @ [StreamText messagesForAI]
      in case streamResult env of
           Resolved result \<Rightarrow>
             (let sources = (case result of None \<Rightarrow> [] | Some srcs \<Rightarrow> srcs);
                  finalAssistantMessage =
                    \<lparr> m_id = assistantMessageId env, m_type = Assistant,
                      m_content = fst streamed, m_timestamp = Date now, m_isLoading = None,
                      m_sources = (if length sources > 0 then Some sources else None) \<rparr>
              in (st\<lparr> conversations :=
                        finalUpdate conversationId (assistantMessageId env) now (fst streamed)
                          sources (snd streamed) \<rparr>,
                  log @ saveMessage rt (assistantMessageSaved env) st conversationId
                          finalAssistantMessage (lit ''Failed to save response to database.'')))
         | Rejected \<Rightarrow>
             (let errorMessage = \<lparr> m_id = errorMessageId env, m_type = Assistant,
                                   m_content = errorText, m_timestamp = Date now,
                                   m_isLoading = Some False, m_sources = None \<rparr>
              in (st\<lparr> conversations :=
                        (if conversationId = [] then snd streamed
                         else appendTo conversationId errorMessage now (snd streamed)) \<rparr>,
                  log @ [Toast (lit ''Error'') (lit ''Failed to generate response'')])))"

text \<open>
  \<open>sendMessage\<close>: nothing for a blank input; else the current conversation is looked up
  in the state of the call, a new one is created when the id is falsy or names no
  conversation, and the \<open>finally\<close> block clears the busy flag that the start of the
  operation set.
\<close>

definition sendMessage :: "runtime \<Rightarrow> send_remote \<Rightarrow> store \<Rightarrow> jsstring \<Rightarrow> store \<times> effect list" where
  "sendMessage rt env st content =
     (if trim content = [] then (st, [])
      else
        let conversationId = currentConversationId st;
            conversation =
              (case conversationId of
                 None \<Rightarrow> None
               | Some i \<Rightarrow>
                   if i = [] then None
                   else map_option (Pair i) (find (\<lambda>c. c_id c = i) (conversations st)));
            sent =
              (case conversation of
                 None \<Rightarrow>
                   (case createNewConversation rt (createdConversation env)
                           (newConversationId env) (clock env) st of
                      (newConversation, log) \<Rightarrow>
                        (case sendTo rt env
                                (st\<lparr> conversations := newConversation # conversations st,
                                     currentConversationId := Some (c_id newConversation),
                                     isLoading := True \<rparr>)
                                (c_id newConversation) newConversation content of
                           (st', log') \<Rightarrow> (st', log @ log')))
               | Some (i, c) \<Rightarrow> sendTo rt env (st\<lparr> isLoading := True \<rparr>) i c content)
        in ((fst sent)\<lparr> isLoading := False \<rparr>, snd sent))"

text \<open>The generation requests among the effects, and the loading messages of a conversation.\<close>

fun streamRequests :: "effect list \<Rightarrow> (role \<times> jsstring) list list" where
  "streamRequests [] = []"
| "streamRequests (StreamText messages # log) = messages # streamRequests log"
| "streamRequests (_ # log) = streamRequests log"

definition loadingMessages :: "conversation \<Rightarrow> message list" where
  "loadingMessages c = filter (\<lambda>m. m_isLoading m = Some True) (c_messages c)"

definition toasts :: "effect list \<Rightarrow> effect list" where
  "toasts log = filter (\<lambda>e. case e of Toast _ _ \<Rightarrow> True | _ \<Rightarrow> False) log"

text \<open>
  The remote half of a deletion succeeds when the list call resolves, the delete of every
  listed message resolves and the delete of the conversation resolves.
\<close>

definition authenticated :: "store \<Rightarrow> bool" where
  "authenticated st = (isAuthenticated st \<and> user st \<noteq> None)"

definition remoteDeleteSucceeds :: "delete_remote \<Rightarrow> bool" where
  "remoteDeleteSucceeds env =
     (case listed env of
        None \<Rightarrow> False
      | Some messages \<Rightarrow>
          list_all (messageDeleted env) [0..<length messages] \<and> conversationDeleted env)"

text \<open>
  A conversation of the list has the id and holds a message with the given id that is
  loading; and the same for a message that is finalized with the given sources.
\<close>

definition stillLoading :: "jsstring \<Rightarrow> jsstring \<Rightarrow> conversation list \<Rightarrow> bool" where
  "stillLoading conversationId messageId convs =
     list_ex (\<lambda>c. c_id c = conversationId \<and>
                  list_ex (\<lambda>m. m_id m = messageId \<and> m_isLoading m = Some True) (c_messages c))
       convs"

definition finalizedWith ::
  "jsstring \<Rightarrow> jsstring \<Rightarrow> jsstring list \<Rightarrow> conversation list \<Rightarrow> bool" where
  "finalizedWith conversationId messageId sources convs =
     list_ex (\<lambda>c. c_id c = conversationId \<and>
                  list_ex (\<lambda>m. m_id m = messageId \<and> m_isLoading m = Some False \<and>
                               m_sources m = Some sources) (c_messages c))
       convs"

text \<open>A record column that holds no date: missing, empty or not parsable.\<close>

fun badTimestamp :: "runtime \<Rightarrow> jsstring nullable \<Rightarrow> bool" where
  "badTimestamp rt Undefined = True"
| "badTimestamp rt Null = True"
| "badTimestamp rt (Defined s) = (s = [] \<or> Date_parse rt s = None)"

text \<open>
  The round trip of a message: to a record with \<open>createDbMessage\<close> and back with
  \<open>transformDbMessage\<close>; \<open>None\<close> when either step fails.
\<close>

definition roundTrip :: "runtime \<Rightarrow> message \<Rightarrow> jsstring \<Rightarrow> jsstring \<Rightarrow> message option" where
  "roundTrip rt message conversationId userId =
     (case createDbMessage rt message conversationId userId of
        Inl e \<Rightarrow> None
      | Inr dbMessage \<Rightarrow> transformDbMessage rt dbMessage)"

text \<open>
  What the round trip asks of the runtime for one list of sources: the JSON text of a
  non-empty list is not empty and parses back to the list.
\<close>

definition sourcesRoundTrip :: "runtime \<Rightarrow> jsstring list option \<Rightarrow> bool" where
  "sourcesRoundTrip rt sources =
     (case sources of
        None \<Rightarrow> True
      | Some srcs \<Rightarrow>
          srcs = [] \<or>
          (JSON_stringify rt srcs \<noteq> [] \<and> JSON_parse rt (JSON_stringify rt srcs) = Some srcs))"

section \<open>Sample inputs\<close>

text \<open>
  A runtime that knows two dates and one JSON text, a store with one empty conversation,
  and answers of the outside for the runs evaluated below.
\<close>

definition sampleISO :: jsstring where
  "sampleISO = lit ''2024-01-01T00:00:00.000Z''"

definition sampleJSON :: jsstring where
  "sampleJSON = lit ''['' @ [0x22] @ lit ''https://example.org'' @ [0x22] @ lit '']''"

definition laterISO :: jsstring where
  "laterISO = lit ''2024-01-01T00:01:00.000Z''"

definition sampleRuntime :: runtime where
  "sampleRuntime =
     \<lparr> Date_parse = (\<lambda>s. if s = sampleISO then Some 1704067200000
                         else if s = laterISO then Some 1704067260000 else None),
       toISOString = (\<lambda>t. if t = 1704067260000 then laterISO else sampleISO),
       JSON_parse = (\<lambda>s. if s = sampleJSON then Some [lit ''https://example.org''] else None),
       JSON_stringify = (\<lambda>xs. sampleJSON) \<rparr>"

definition sampleConversation :: conversation where
  "sampleConversation =
     \<lparr> c_id = lit ''c1'', c_title = lit ''New Chat'', c_messages = [],
       c_createdAt = Date 1704067200000, c_updatedAt = Date 1704067200000 \<rparr>"

definition initialStore :: store where
  "initialStore =
     \<lparr> conversations = [], currentConversationId = None, isLoading = False, user = None,
       isAuthenticated = False \<rparr>"

definition sampleStore :: store where
  "sampleStore =
     \<lparr> conversations = [sampleConversation], currentConversationId = Some (lit ''c1''),
       isLoading = False, user = None, isAuthenticated = False \<rparr>"

definition signedIn :: "store \<Rightarrow> store" where
  "signedIn st =
     st\<lparr> user := Some \<lparr> u_id = lit ''u1'', u_email = lit ''u1@example.org'' \<rparr>,
          isAuthenticated := True \<rparr>"

definition sampleDbMessage :: "jsstring \<Rightarrow> db_message" where
  "sampleDbMessage i =
     \<lparr> dbm_id = i, dbm_conversation_id = lit ''c1'', dbm_user_id = lit ''u1'',
       dbm_type = lit ''user'', dbm_content = lit ''Hello'', dbm_timestamp = Defined sampleISO,
       dbm_sources = Null \<rparr>"

definition secondDeleteFails :: delete_remote where
  "secondDeleteFails =
     \<lparr> listed = Some [sampleDbMessage (lit ''m1''), sampleDbMessage (lit ''m2''),
                       sampleDbMessage (lit ''m3'')],
       messageDeleted = (\<lambda>k. k \<noteq> 1),
       conversationDeleted = True \<rparr>"

definition streamRejects :: send_remote where
  "streamRejects =
     \<lparr> newConversationId = lit ''c2'', userMessageId = lit ''m1'',
       assistantMessageId = lit ''m2'', errorMessageId = lit ''m3'', clock = 1704067260000,
       createdConversation = None, userMessageSaved = True, assistantMessageSaved = True,
       chunks = [lit ''Hel'', lit ''lo''], streamResult = Rejected \<rparr>"

definition streamRejectsAgain :: send_remote where
  "streamRejectsAgain =
     streamRejects \<lparr> userMessageId := lit ''m4'', assistantMessageId := lit ''m5'',
                     errorMessageId := lit ''m6'', clock := 1704067320000, chunks := [] \<rparr>"

definition streamResolves :: send_remote where
  "streamResolves = streamRejects \<lparr> streamResult := Resolved None \<rparr>"

definition emptyReply :: message where
  "emptyReply =
     \<lparr> m_id = lit ''m2'', m_type = Assistant, m_content = [],
       m_timestamp = Date 1704067200000, m_isLoading = None, m_sources = None \<rparr>"

definition citedReply :: message where
  "citedReply =
     \<lparr> m_id = lit ''m2'', m_type = Assistant, m_content = lit ''Hello'',
       m_timestamp = Date 1704067200000, m_isLoading = Some False,
       m_sources = Some [lit ''https://example.org''] \<rparr>"

definition undatedConversation :: db_conversation where
  "undatedConversation =
     \<lparr> dbc_id = lit ''c1'', dbc_user_id = lit ''u1'', dbc_title = lit ''Trip'',
       dbc_created_at = Defined (lit ''yesterday''), dbc_updated_at = Null \<rparr>"

definition numberedMessage :: "nat \<Rightarrow> message" where
  "numberedMessage k =
     \<lparr> m_id = [of_nat (65 + k)], m_type = (if even k then User else Assistant),
       m_content = [of_nat (97 + k)], m_timestamp = Date (1704067200000 + int k),
       m_isLoading = None, m_sources = None \<rparr>"

definition longStore :: store where
  "longStore =
     sampleStore \<lparr> conversations :=
       [sampleConversation \<lparr> c_messages := map numberedMessage [0..<25] \<rparr>] \<rparr>"

section \<open>Properties of the transform layer\<close>

lemma parseDate_None_iff: "parseDate rt x = None \<longleftrightarrow> badTimestamp rt x"
  by (cases x) auto

lemma role_string_cases:
  "role_string r \<noteq> []"
  "(role_string r \<noteq> lit ''user'' \<and> role_string r \<noteq> lit ''assistant'') = False"
  "(if role_string r = lit ''user'' then User else Assistant) = r"
  by (cases r; simp add: role_string_def lit_def)+

lemma transformDbConversation_Some_iff:
  "transformDbConversation rt now r \<noteq> None \<longleftrightarrow> dbc_id r \<noteq> [] \<and> dbc_title r \<noteq> []"
  by (simp add: transformDbConversation_def)

lemma transformDbMessage_Some_iff:
  "transformDbMessage rt r \<noteq> None \<longleftrightarrow>
     dbm_id r \<noteq> [] \<and> dbm_content r \<noteq> [] \<and>
     (dbm_type r = lit ''user'' \<or> dbm_type r = lit ''assistant'') \<and>
     \<not> badTimestamp rt (dbm_timestamp r)"
  using parseDate_None_iff [of rt "dbm_timestamp r"]
  by (auto simp: transformDbMessage_def Let_def lit_def split: option.splits)

lemma transformDbMessage_sources:
  "transformDbMessage rt r = Some m \<Longrightarrow> m_sources m \<noteq> Some [] \<and> m_isLoading m = None"
  by (auto simp: transformDbMessage_def Let_def split: if_splits option.splits)





text \<open>
  Claim C8. A conversation record with an id and a title is transformed whatever its
  dates are, and a date column that is missing, empty or not parsable becomes the current
  time; a message record whose timestamp is missing, empty or not parsable is rejected.
\<close>

theorem timestamp_fallback_and_rejection:
  assumes "dbc_id r \<noteq> []" and "dbc_title r \<noteq> []" and "badTimestamp rt (dbm_timestamp m)"
  shows "transformDbConversation rt now r =
           Some \<lparr> c_id = dbc_id r, c_title = dbc_title r, c_messages = [],
                  c_createdAt = Date (if badTimestamp rt (dbc_created_at r) then now
                                      else the (parseDate rt (dbc_created_at r))),
                  c_updatedAt = Date (if badTimestamp rt (dbc_updated_at r) then now
                                      else the (parseDate rt (dbc_updated_at r))) \<rparr>
         \<and> transformDbMessage rt m = None"
proof -
  have created: "(case parseDate rt (dbc_created_at r) of None \<Rightarrow> now | Some t \<Rightarrow> t) =
      (if badTimestamp rt (dbc_created_at r) then now else the (parseDate rt (dbc_created_at r)))"
    using parseDate_None_iff [of rt "dbc_created_at r"] by (auto split: option.splits)
  have updated: "(case parseDate rt (dbc_updated_at r) of None \<Rightarrow> now | Some t \<Rightarrow> t) =
      (if badTimestamp rt (dbc_updated_at r) then now else the (parseDate rt (dbc_updated_at r)))"
    using parseDate_None_iff [of rt "dbc_updated_at r"] by (auto split: option.splits)
  have "parseDate rt (dbm_timestamp m) = None"
    using assms(3) by (simp add: parseDate_None_iff)
  then have "transformDbMessage rt m = None"
    by (simp add: transformDbMessage_def)
  with assms(1,2) created updated show ?thesis
    by (simp add: transformDbConversation_def)
qed

text \<open>
  Witness for C8: a conversation record created ``yesterday'' and never updated gets the
  current time twice; a message dated ``yesterday'' is rejected.
\<close>

theorem timestamp_fallback_and_rejection_witness:
  "transformDbConversation sampleRuntime 1704067260000 undatedConversation =
     Some \<lparr> c_id = lit ''c1'', c_title = lit ''Trip'', c_messages = [],
            c_createdAt = Date 1704067260000, c_updatedAt = Date 1704067260000 \<rparr>
   \<and> transformDbMessage sampleRuntime
       ((sampleDbMessage (lit ''m1'')) \<lparr> dbm_timestamp := Defined (lit ''yesterday'') \<rparr>) = None"
  using timestamp_fallback_and_rejection [of undatedConversation sampleRuntime
      "(sampleDbMessage (lit ''m1'')) \<lparr> dbm_timestamp := Defined (lit ''yesterday'') \<rparr>"
      1704067260000]
  by (simp add: undatedConversation_def sampleRuntime_def sampleDbMessage_def sampleISO_def
        laterISO_def lit_def)

text \<open>
  Claim C4, as the code has it. A message with a non-empty id, a non-empty content and a
  valid timestamp, on a runtime that reads back the ISO text of that timestamp and the
  JSON text of its sources, comes back from the round trip with the same id, type,
  content and timestamp (to the millisecond), its sources with the empty list read as
  absent, and without its loading flag.
\<close>

theorem roundTrip_message:
  assumes "m_id m \<noteq> []" and "m_content m \<noteq> []" and "m_timestamp m = Date t"
    and "toISOString rt t \<noteq> []" and "Date_parse rt (toISOString rt t) = Some t"
    and "sourcesRoundTrip rt (m_sources m)"
  shows "roundTrip rt m conversationId userId =
           Some (m\<lparr> m_isLoading := None,
                    m_sources := (if m_sources m = Some [] then None else m_sources m) \<rparr>)"
proof (cases "m_sources m")
  case None
  with assms role_string_cases [of "m_type m"] show ?thesis
    by (simp add: roundTrip_def createDbMessage_def transformDbMessage_def)
next
  case (Some srcs)
  with assms role_string_cases [of "m_type m"] show ?thesis
    by (cases "srcs = []")
       (auto simp: roundTrip_def createDbMessage_def transformDbMessage_def sourcesRoundTrip_def)
qed

text \<open>Witness for C4: a finished answer with one source.\<close>

theorem roundTrip_message_witness:
  "roundTrip sampleRuntime citedReply (lit ''c1'') (lit ''u1'') =
     Some \<lparr> m_id = lit ''m2'', m_type = Assistant, m_content = lit ''Hello'',
            m_timestamp = Date 1704067200000, m_isLoading = None,
            m_sources = Some [lit ''https://example.org''] \<rparr>"
  using roundTrip_message [of citedReply 1704067200000 sampleRuntime "lit ''c1''" "lit ''u1''"]
  by (simp add: citedReply_def sampleRuntime_def sourcesRoundTrip_def sampleISO_def sampleJSON_def
        lit_def)

text \<open>
  Counterexample to C4 as stated: an assistant message with empty content (what
  \<open>sendMessage\<close> saves when the generation delivers no chunk) is written to a record,
  and the record is rejected on the way back; the same message while it is the loading
  placeholder is lost in the same way.
\<close>

theorem roundTrip_empty_content_rejected:
  "createDbMessage sampleRuntime emptyReply (lit ''c1'') (lit ''u1'') =
     Inr \<lparr> dbm_id = lit ''m2'', dbm_conversation_id = lit ''c1'', dbm_user_id = lit ''u1'',
           dbm_type = lit ''assistant'', dbm_content = [], dbm_timestamp = Defined sampleISO,
           dbm_sources = Null \<rparr>
   \<and> transformDbMessage sampleRuntime
       \<lparr> dbm_id = lit ''m2'', dbm_conversation_id = lit ''c1'', dbm_user_id = lit ''u1'',
         dbm_type = lit ''assistant'', dbm_content = [], dbm_timestamp = Defined sampleISO,
         dbm_sources = Null \<rparr> = None
   \<and> roundTrip sampleRuntime emptyReply (lit ''c1'') (lit ''u1'') = None
   \<and> roundTrip sampleRuntime (emptyReply \<lparr> m_isLoading := Some True \<rparr>) (lit ''c1'') (lit ''u1'')
       = None"
  by (simp add: roundTrip_def createDbMessage_def transformDbMessage_def emptyReply_def
        sampleRuntime_def role_string_def)

section \<open>Properties of the conversation store\<close>

lemma deleteMessages_Cons:
  "deleteMessages ok k (m # ms) =
     (if ok k
      then (fst (deleteMessages ok (Suc k) ms),
            Messages_delete (dbm_id m) # snd (deleteMessages ok (Suc k) ms))
      else (False, [Messages_delete (dbm_id m)]))"
  by (simp split: prod.splits)

lemma deleteMessages_done:
  "fst (deleteMessages ok k messages) = list_all ok [k..<k + length messages]"
proof (induction messages arbitrary: k)
  case Nil
  then show ?case by simp
next
  case (Cons m ms)
  have "[k..<Suc k + length ms] = k # [Suc k..<Suc k + length ms]"
    by (rule upt_conv_Cons) simp
  then have "list_all ok [k..<k + length (m # ms)] =
      (ok k \<and> list_all ok [Suc k..<Suc k + length ms])"
    by simp
  with Cons [of "Suc k"] show ?case
    by (simp only: deleteMessages_Cons fst_conv split: if_splits) simp
qed

lemma deleteMessages_toasts: "toasts (snd (deleteMessages ok k messages)) = []"
proof (induction messages arbitrary: k)
  case Nil
  then show ?case by (simp add: toasts_def)
next
  case (Cons m ms)
  from Cons [of "Suc k"] show ?case
    by (simp only: deleteMessages_Cons) (simp add: toasts_def)
qed

lemma toasts_append: "toasts (xs @ ys) = toasts xs @ toasts ys"
  by (simp add: toasts_def)

lemma removeFromLocalState_removes:
  "filter (\<lambda>c. c_id c = i) (conversations (removeFromLocalState st i)) = []"
  by (simp add: removeFromLocalState_def filter_empty_conv)

text \<open>
  Claim C1, as the code has it. When the store is authenticated and the list call, a
  message delete or the conversation delete fails, \<open>deleteConversation\<close> leaves the
  state as it was and shows the error toast once. In every other case (not authenticated,
  or every remote call succeeded) it shows no toast and removes the conversation from the
  list, after which no conversation of the list has the id.
\<close>

theorem deleteConversation_removes_unless_remote_fails:
  "fst (deleteConversation env st i) =
     (if authenticated st \<and> \<not> remoteDeleteSucceeds env then st else removeFromLocalState st i)
   \<and> toasts (snd (deleteConversation env st i)) =
     (if authenticated st \<and> \<not> remoteDeleteSucceeds env then [deleteFailedToast] else [])
   \<and> filter (\<lambda>c. c_id c = i) (conversations (removeFromLocalState st i)) = []"
proof (cases "authenticated st")
  case False
  then show ?thesis
    by (auto simp: deleteConversation_def authenticated_def toasts_def removeFromLocalState_removes
        split: bool.splits option.splits)
next
  case True
  then obtain u where u: "isAuthenticated st" "user st = Some u"
    by (auto simp: authenticated_def)
  show ?thesis
  proof (cases "listed env")
    case None
    with u True show ?thesis
      by (simp add: deleteConversation_def remoteDeleteSucceeds_def toasts_def
          deleteFailedToast_def removeFromLocalState_removes)
  next
    case (Some messages)
    obtain ok log where d: "deleteMessages (messageDeleted env) 0 messages = (ok, log)"
      by (cases "deleteMessages (messageDeleted env) 0 messages")
    have ok: "ok = list_all (messageDeleted env) [0..<length messages]"
      using deleteMessages_done [of "messageDeleted env" 0 messages] d by simp
    have log: "toasts log = []"
      using deleteMessages_toasts [of "messageDeleted env" 0 messages] d by simp
    from u True Some d ok log show ?thesis
      by (cases ok)
         (auto simp: deleteConversation_def remoteDeleteSucceeds_def toasts_append
            removeFromLocalState_removes, auto simp: toasts_def deleteFailedToast_def)
  qed
qed

text \<open>
  Counterexample to C1 as stated: signed in, three listed messages, the second delete
  fails. Two deletes are issued, the toast is shown, and the state, whose only
  conversation is the one to delete, is unchanged.
\<close>

theorem deleteConversation_failed_delete_keeps_conversation:
  "deleteConversation secondDeleteFails (signedIn sampleStore) (lit ''c1'') =
     (signedIn sampleStore,
      [Messages_list (lit ''c1''), Messages_delete (lit ''m1''), Messages_delete (lit ''m2''),
       deleteFailedToast])
   \<and> map c_id (conversations (signedIn sampleStore)) = [lit ''c1'']"
  by (simp add: deleteConversation_def secondDeleteFails_def signedIn_def sampleStore_def
        sampleConversation_def sampleDbMessage_def)

text \<open>
  Claim C7. A seed of 80 code units gives a title of 50 code units, the first 47 of the
  seed and three dots; a seed of at most 50 code units is its own title; the title is what
  \<open>updateConversationTitle\<close> gives the conversation.
\<close>

theorem title_truncation:
  assumes "length long = 80" and "length short \<le> 50"
  shows "length (title long) = 50 \<and> drop 47 (title long) = lit ''...''
         \<and> take 47 (title long) = take 47 long
         \<and> title short = short
         \<and> conversations (fst (updateConversationTitle now st i long)) =
             map (\<lambda>c. if c_id c = i then c\<lparr> c_title := title long, c_updatedAt := Date now \<rparr> else c)
               (conversations st)"
  using assms by (simp add: title_def lit_def updateConversationTitle_def)

text \<open>Witness for C7: eighty letters, and a seed of length 10.\<close>

theorem title_truncation_witness:
  "title (replicate 80 0x61) = replicate 47 0x61 @ lit ''...''
   \<and> length (title (replicate 80 0x61)) = 50
   \<and> title (lit ''Hello, Bob'') = lit ''Hello, Bob''
   \<and> map c_title (conversations (fst (updateConversationTitle 1704067260000 sampleStore (lit ''c1'')
        (replicate 80 0x61)))) = [replicate 47 0x61 @ lit ''...'']"
  using title_truncation [of "replicate 80 0x61" "lit ''Hello, Bob''" 1704067260000 sampleStore
      "lit ''c1''"]
  by (simp add: title_def lit_def sampleStore_def sampleConversation_def)

section \<open>Properties of sending\<close>

lemmas send_defs = sendMessage_def sendTo_def Let_def addMessage_def appendTo_def
  updateConversationTitle_def onChunk_def finalUpdate_def saveMessage_def title_def trim_def
  isWhiteSpace_def createNewConversation_def slice_last_def

lemma trim_empty_iff: "trim s = [] \<longleftrightarrow> list_all isWhiteSpace s"
proof
  assume "trim s = []"
  then have a: "list_all isWhiteSpace (dropWhile isWhiteSpace s)"
    by (simp add: trim_def list_all_iff)
  show "list_all isWhiteSpace s"
  proof (cases "dropWhile isWhiteSpace s")
    case Nil
    then show ?thesis by (simp add: list_all_iff)
  next
    case (Cons x xs)
    then have "\<not> isWhiteSpace x" using hd_dropWhile [of isWhiteSpace s] by simp
    with a Cons show ?thesis by simp
  qed
next
  assume "list_all isWhiteSpace s"
  then have "dropWhile isWhiteSpace s = []" by (simp add: list_all_iff)
  then have "trim s = rev (dropWhile isWhiteSpace (rev []))" by (simp only: trim_def)
  then show "trim s = []" by simp
qed

lemma streamRequests_append: "streamRequests (xs @ ys) = streamRequests xs @ streamRequests ys"
  by (induction xs rule: streamRequests.induct) auto

lemma streamRequests_saveMessage: "streamRequests (saveMessage rt saved st i m d) = []"
  by (auto simp: saveMessage_def saveWarning_def split: option.splits sum.splits bool.splits)

lemma role_of_type: "(if m_type m = User then User else Assistant) = m_type m"
  by (cases "m_type m") auto

lemma sendMessage_existing:
  assumes "trim content \<noteq> []" and "currentConversationId st = Some i" and "i \<noteq> []"
    and "find (\<lambda>c. c_id c = i) (conversations st) = Some c"
  shows "sendMessage rt env st content =
          ((fst (sendTo rt env (st\<lparr>isLoading := True\<rparr>) i c content))\<lparr>isLoading := False\<rparr>,
           snd (sendTo rt env (st\<lparr>isLoading := True\<rparr>) i c content))"
  using assms by (simp add: sendMessage_def Let_def)

lemma streamRequests_sendTo:
  "streamRequests (snd (sendTo rt env st i c content)) =
     [map (\<lambda>m. (m_type m, m_content m)) (slice_last MAX_CONTEXT_MESSAGES (c_messages c))
        @ [(User, content)]]"
  by (simp add: sendTo_def Let_def streamRequests_append streamRequests_saveMessage
        addMessage_def updateConversationTitle_def role_of_type
      split: stream_result.splits option.splits bool.splits)

subsection \<open>The placeholder of the streamed answer\<close>

lemma list_ex_map_mono:
  assumes "list_ex P xs" and "\<And>x. P x \<Longrightarrow> Q (f x)"
  shows "list_ex Q (map f xs)"
  using assms by (induction xs) auto

lemma find_Some_list_ex: "find P xs = Some x \<Longrightarrow> list_ex P xs"
  by (induction xs) (auto split: if_splits)

lemma appendTo_places:
  assumes "list_ex (\<lambda>c. c_id c = i) prev" and "m_isLoading m = Some True"
  shows "stillLoading i (m_id m) (appendTo i m now prev)"
  unfolding stillLoading_def appendTo_def
  by (rule list_ex_map_mono [OF assms(1)]) (simp add: assms(2))

lemma appendTo_keeps:
  assumes "stillLoading i a prev"
  shows "stillLoading i a (appendTo j m now prev)"
proof -
  from assms have "list_ex (\<lambda>c. c_id c = i \<and>
      list_ex (\<lambda>m. m_id m = a \<and> m_isLoading m = Some True) (c_messages c)) prev"
    by (simp add: stillLoading_def)
  then show ?thesis
    unfolding stillLoading_def appendTo_def
    by (rule list_ex_map_mono) simp
qed

lemma updateConversationTitle_keeps_ids:
  assumes "list_ex (\<lambda>c. c_id c = i) (conversations st)"
  shows "list_ex (\<lambda>c. c_id c = i) (conversations (fst (updateConversationTitle now st j s)))"
  unfolding updateConversationTitle_def fst_conv
  using list_ex_map_mono [OF assms, of "\<lambda>c. c_id c = i"
      "\<lambda>c. if c_id c = j then c\<lparr>c_title := title s, c_updatedAt := Date now\<rparr> else c"]
  by simp

lemma appendTo_keeps_ids:
  assumes "list_ex (\<lambda>c. c_id c = i) prev"
  shows "list_ex (\<lambda>c. c_id c = i) (appendTo j m now prev)"
  unfolding appendTo_def
  by (rule list_ex_map_mono [OF assms]) simp

lemma loading_message_kept:
  assumes "list_ex (\<lambda>m. m_id m = a \<and> m_isLoading m = Some True) ms"
  shows "list_ex (\<lambda>m. m_id m = a \<and> m_isLoading m = Some True)
           (map (\<lambda>m. if m_id m = a then m\<lparr>m_content := t, m_isLoading := Some True\<rparr> else m) ms)"
  by (rule list_ex_map_mono [OF assms]) simp

lemma onChunk_keeps:
  assumes "stillLoading i a (snd acc)"
  shows "stillLoading i a (snd (onChunk i a now acc chunk))"
proof (cases acc)
  case (Pair t prev)
  with assms have "list_ex (\<lambda>c. c_id c = i \<and>
      list_ex (\<lambda>m. m_id m = a \<and> m_isLoading m = Some True) (c_messages c)) prev"
    by (simp add: stillLoading_def)
  then show ?thesis
    unfolding Pair onChunk_def stillLoading_def prod.case snd_conv
    by (rule list_ex_map_mono) (simp add: loading_message_kept)
qed

lemma chunks_keep:
  assumes "stillLoading i a (snd acc)"
  shows "stillLoading i a (snd (foldl (onChunk i a now) acc cs))"
  using assms by (induction cs arbitrary: acc) (simp_all add: onChunk_keeps)

lemma finalUpdate_sets:
  assumes "stillLoading i a prev"
  shows "finalizedWith i a srcs (finalUpdate i a now t srcs prev)"
proof -
  have m: "\<And>ms. list_ex (\<lambda>m. m_id m = a \<and> m_isLoading m = Some True) ms \<Longrightarrow>
      list_ex (\<lambda>m. m_id m = a \<and> m_isLoading m = Some False \<and> m_sources m = Some srcs)
        (map (\<lambda>m. if m_id m = a
                  then m\<lparr>m_content := t, m_isLoading := Some False, m_sources := Some srcs\<rparr>
                  else m) ms)"
    by (erule list_ex_map_mono) simp
  from assms have "list_ex (\<lambda>c. c_id c = i \<and>
      list_ex (\<lambda>m. m_id m = a \<and> m_isLoading m = Some True) (c_messages c)) prev"
    by (simp add: stillLoading_def)
  then show ?thesis
    unfolding finalizedWith_def finalUpdate_def
    by (rule list_ex_map_mono) (simp add: m)
qed

text \<open>
  After the chunks of the generation the placeholder is in its conversation and loading,
  whatever the conversation held before.
\<close>

lemma sendTo_streamed:
  assumes "list_ex (\<lambda>c. c_id c = i) (conversations st)"
  shows "\<exists>t prev. stillLoading i (assistantMessageId env) prev \<and>
           conversations (fst (sendTo rt env st i c content)) =
             (case streamResult env of
                Resolved r \<Rightarrow>
                  finalUpdate i (assistantMessageId env) (clock env) t
                    (case r of None \<Rightarrow> [] | Some srcs \<Rightarrow> srcs) prev
              | Rejected \<Rightarrow>
                  if i = [] then prev
                  else appendTo i
                         \<lparr> m_id = errorMessageId env, m_type = Assistant, m_content = errorText,
                           m_timestamp = Date (clock env), m_isLoading = Some False,
                           m_sources = None \<rparr> (clock env) prev)"
proof -
  let ?now = "clock env"
  let ?a = "assistantMessageId env"
  let ?user = "\<lparr> m_id = userMessageId env, m_type = User, m_content = content,
                 m_timestamp = Date ?now, m_isLoading = None, m_sources = None \<rparr>"
  let ?added = "addMessage rt (userMessageSaved env) ?now st i ?user"
  let ?titled = "(if length (c_messages c) = 0
                  then updateConversationTitle ?now (fst ?added) i content
                  else (fst ?added, []))"
  let ?placeholder = "\<lparr> m_id = ?a, m_type = Assistant, m_content = [],
                        m_timestamp = Date ?now, m_isLoading = Some True, m_sources = None \<rparr>"
  let ?streamed = "foldl (onChunk i ?a ?now)
      ([], appendTo i ?placeholder ?now (conversations (fst ?titled))) (chunks env)"
  have "list_ex (\<lambda>c. c_id c = i) (conversations (fst ?added))"
    using assms by (simp add: addMessage_def appendTo_keeps_ids)
  then have "list_ex (\<lambda>c. c_id c = i) (conversations (fst ?titled))"
    by (simp add: updateConversationTitle_keeps_ids)
  then have "stillLoading i ?a (appendTo i ?placeholder ?now (conversations (fst ?titled)))"
    using appendTo_places [of i "conversations (fst ?titled)" ?placeholder ?now] by simp
  then have s: "stillLoading i ?a (snd ?streamed)"
    using chunks_keep [of i ?a "([], appendTo i ?placeholder ?now (conversations (fst ?titled)))"]
    by simp
  have "conversations (fst (sendTo rt env st i c content)) =
      (case streamResult env of
         Resolved r \<Rightarrow>
           finalUpdate i ?a ?now (fst ?streamed) (case r of None \<Rightarrow> [] | Some srcs \<Rightarrow> srcs)
             (snd ?streamed)
       | Rejected \<Rightarrow>
           if i = [] then snd ?streamed
           else appendTo i
                  \<lparr> m_id = errorMessageId env, m_type = Assistant, m_content = errorText,
                    m_timestamp = Date ?now, m_isLoading = Some False, m_sources = None \<rparr>
                  ?now (snd ?streamed))"
    by (simp add: sendTo_def Let_def split: stream_result.splits)
  with s show ?thesis by blast
qed

lemma sendTo_rejected_keeps_loading:
  assumes "list_ex (\<lambda>c. c_id c = i) (conversations st)" and "streamResult env = Rejected"
  shows "stillLoading i (assistantMessageId env)
           (conversations (fst (sendTo rt env st i c content)))"
proof -
  from sendTo_streamed [OF assms(1), of env rt c content] assms(2)
  obtain prev where s: "stillLoading i (assistantMessageId env) prev"
    and eq: "conversations (fst (sendTo rt env st i c content)) =
      (if i = [] then prev
       else appendTo i
              \<lparr> m_id = errorMessageId env, m_type = Assistant, m_content = errorText,
                m_timestamp = Date (clock env), m_isLoading = Some False, m_sources = None \<rparr>
              (clock env) prev)"
    by auto
  show ?thesis
    using s appendTo_keeps [OF s] by (simp only: eq split: if_split) simp
qed

lemma sendTo_resolved_sources:
  assumes "list_ex (\<lambda>c. c_id c = i) (conversations st)" and "streamResult env = Resolved r"
  shows "finalizedWith i (assistantMessageId env) (case r of None \<Rightarrow> [] | Some srcs \<Rightarrow> srcs)
           (conversations (fst (sendTo rt env st i c content)))"
proof -
  from sendTo_streamed [OF assms(1), of env rt c content] assms(2)
  obtain t prev where s: "stillLoading i (assistantMessageId env) prev"
    and eq: "conversations (fst (sendTo rt env st i c content)) =
      finalUpdate i (assistantMessageId env) (clock env) t
        (case r of None \<Rightarrow> [] | Some srcs \<Rightarrow> srcs) prev"
    by auto
  show ?thesis
    using finalUpdate_sets [OF s] by (simp only: eq)
qed

text \<open>
  A send with a non-blank input runs \<open>sendTo\<close> on a state whose list holds the
  conversation it sends to.
\<close>

lemma sendMessage_target:
  assumes "trim content \<noteq> []"
  shows "\<exists>st' i c. list_ex (\<lambda>c. c_id c = i) (conversations st') \<and>
           conversations (fst (sendMessage rt env st content)) =
             conversations (fst (sendTo rt env st' i c content))"
proof -
  let ?lookup = "case currentConversationId st of
                   None \<Rightarrow> None
                 | Some i \<Rightarrow>
                     if i = [] then None
                     else map_option (Pair i) (find (\<lambda>c. c_id c = i) (conversations st))"
  show ?thesis
  proof (cases ?lookup)
    case None
    obtain newc log where n: "createNewConversation rt (createdConversation env)
        (newConversationId env) (clock env) st = (newc, log)"
      by (cases "createNewConversation rt (createdConversation env)
        (newConversationId env) (clock env) st")
    let ?st = "st\<lparr> conversations := newc # conversations st,
                    currentConversationId := Some (c_id newc), isLoading := True \<rparr>"
    have "list_ex (\<lambda>c. c_id c = c_id newc) (conversations ?st)" by simp
    moreover have "conversations (fst (sendMessage rt env st content)) =
        conversations (fst (sendTo rt env ?st (c_id newc) newc content))"
      using assms None n by (simp add: sendMessage_def Let_def split: prod.splits)
    ultimately show ?thesis by blast
  next
    case (Some p)
    obtain i c where p: "p = (i, c)" by (cases p)
    with Some have "find (\<lambda>c. c_id c = i) (conversations st) = Some c"
      by (auto split: option.splits if_splits)
    then have "list_ex (\<lambda>c. c_id c = i) (conversations (st\<lparr>isLoading := True\<rparr>))"
      using find_Some_list_ex [of "\<lambda>c. c_id c = i" "conversations st" c] by simp
    moreover have "conversations (fst (sendMessage rt env st content)) =
        conversations (fst (sendTo rt env (st\<lparr>isLoading := True\<rparr>) i c content))"
      using assms Some p by (simp add: sendMessage_def Let_def)
    ultimately show ?thesis by blast
  qed
qed

lemma stillLoading_loadingMessages:
  assumes "stillLoading i a convs"
  shows "list_ex (\<lambda>c. loadingMessages c \<noteq> []) convs"
proof -
  have "\<And>ms. list_ex (\<lambda>m. m_id m = a \<and> m_isLoading m = Some True) ms \<Longrightarrow>
      filter (\<lambda>m. m_isLoading m = Some True) ms \<noteq> []"
    by (auto simp: list_ex_iff filter_empty_conv)
  then show ?thesis
    using assms by (auto simp: stillLoading_def loadingMessages_def list_ex_iff)
qed

text \<open>
  Whenever the generation rejects, the state after \<open>sendMessage\<close> holds a conversation
  with a loading message; whenever it resolves without sources, the state holds a
  finalized message whose sources are the empty list.
\<close>

lemma sendMessage_rejected_keeps_loading:
  assumes "trim content \<noteq> []" and "streamResult env = Rejected"
  shows "list_ex (\<lambda>c. loadingMessages c \<noteq> [])
           (conversations (fst (sendMessage rt env st content)))"
proof -
  from sendMessage_target [OF assms(1), of rt env st]
  obtain st' i c where t: "list_ex (\<lambda>c. c_id c = i) (conversations st')"
    and eq: "conversations (fst (sendMessage rt env st content)) =
      conversations (fst (sendTo rt env st' i c content))"
    by blast
  have "stillLoading i (assistantMessageId env)
      (conversations (fst (sendTo rt env st' i c content)))"
    using t assms(2) by (rule sendTo_rejected_keeps_loading)
  then show ?thesis
    unfolding eq by (rule stillLoading_loadingMessages)
qed

lemma sendMessage_resolved_without_sources:
  assumes "trim content \<noteq> []" and "streamResult env = Resolved None"
  shows "list_ex (\<lambda>c. list_ex (\<lambda>m. m_isLoading m = Some False \<and> m_sources m = Some [])
                        (c_messages c))
           (conversations (fst (sendMessage rt env st content)))"
proof -
  from sendMessage_target [OF assms(1), of rt env st]
  obtain st' i c where t: "list_ex (\<lambda>c. c_id c = i) (conversations st')"
    and eq: "conversations (fst (sendMessage rt env st content)) =
      conversations (fst (sendTo rt env st' i c content))"
    by blast
  have "finalizedWith i (assistantMessageId env) []
      (conversations (fst (sendTo rt env st' i c content)))"
    using sendTo_resolved_sources [OF t assms(2), of rt c content] by simp
  then show ?thesis
    unfolding eq by (auto simp: finalizedWith_def list_ex_iff)
qed

subsection \<open>The claims about sending\<close>

text \<open>
  Claim C10. For an input that is empty after trimming, \<open>sendMessage\<close> returns the state
  it was given (the list, the selected id, the busy flag, every conversation with its
  messages and dates) and asks nothing of the store, the generation or the toasts.
\<close>

theorem sendMessage_blank_is_noop:
  assumes "trim content = []"
  shows "sendMessage rt env st content = (st, [])"
  using assms by (simp add: sendMessage_def)

text \<open>Witness for C10: a space, a tab, an ideographic space and a line feed.\<close>

theorem sendMessage_blank_is_noop_witness:
  "sendMessage sampleRuntime streamResolves sampleStore [0x20, 0x09, 0x3000, 0x0A] =
     (sampleStore, [])"
  using sendMessage_blank_is_noop [of "[0x20, 0x09, 0x3000, 0x0A]" sampleRuntime streamResolves
      sampleStore]
  by (simp add: trim_def isWhiteSpace_def)

text \<open>
  Claim C6. When the selected conversation holds 25 messages, \<open>sendMessage\<close> issues one
  generation request; its messages are the last 20 of the 25 as role and content, in
  their order, and then the new user message: 21 entries.
\<close>

theorem sendMessage_context_window:
  assumes "trim content \<noteq> []" and "currentConversationId st = Some i" and "i \<noteq> []"
    and "find (\<lambda>c. c_id c = i) (conversations st) = Some c" and "length (c_messages c) = 25"
  shows "streamRequests (snd (sendMessage rt env st content)) =
           [map (\<lambda>m. (m_type m, m_content m)) (drop 5 (c_messages c)) @ [(User, content)]]
         \<and> length (map (\<lambda>m. (m_type m, m_content m)) (drop 5 (c_messages c)) @ [(User, content)])
             = 21"
  using assms streamRequests_sendTo [of rt env "st\<lparr>isLoading := True\<rparr>" i c content]
  by (simp add: sendMessage_existing slice_last_def MAX_CONTEXT_MESSAGES_def)

text \<open>Witness for C6: 25 numbered messages; the request holds the messages 5 to 24.\<close>

theorem sendMessage_context_window_witness:
  "streamRequests (snd (sendMessage sampleRuntime streamResolves longStore (lit ''Hi''))) =
     [map (\<lambda>m. (m_type m, m_content m)) (map numberedMessage [5..<25]) @ [(User, lit ''Hi'')]]
   \<and> length (map (\<lambda>m. (m_type m, m_content m)) (map numberedMessage [5..<25])
        @ [(User, lit ''Hi'')]) = 21"
  using sendMessage_context_window [of "lit ''Hi''" longStore "lit ''c1''"
      "sampleConversation \<lparr> c_messages := map numberedMessage [0..<25] \<rparr>" sampleRuntime
      streamResolves]
  by (simp add: longStore_def sampleStore_def sampleConversation_def trim_def isWhiteSpace_def
        lit_def drop_map)

text \<open>
  Claim C2 fails on the code. The generation delivers two chunks and then rejects: the
  error message is appended with its loading flag off, but the placeholder \<open>m2\<close> stays in
  the conversation with the partial text and its loading flag on. Lemma
  \<open>sendMessage_rejected_keeps_loading\<close> shows the same for every run whose generation
  rejects.
\<close>

theorem sendMessage_rejected_stream_leaves_placeholder_loading:
  "sendMessage sampleRuntime streamRejects sampleStore (lit ''Hi'') =
    (sampleStore \<lparr> conversations :=
      [\<lparr> c_id = lit ''c1'', c_title = lit ''Hi'',
         c_messages =
           [\<lparr> m_id = lit ''m1'', m_type = User, m_content = lit ''Hi'',
              m_timestamp = Date 1704067260000, m_isLoading = None, m_sources = None \<rparr>,
            \<lparr> m_id = lit ''m2'', m_type = Assistant, m_content = lit ''Hello'',
              m_timestamp = Date 1704067260000, m_isLoading = Some True, m_sources = None \<rparr>,
            \<lparr> m_id = lit ''m3'', m_type = Assistant, m_content = errorText,
              m_timestamp = Date 1704067260000, m_isLoading = Some False, m_sources = None \<rparr>],
         c_createdAt = Date 1704067200000, c_updatedAt = Date 1704067260000 \<rparr>] \<rparr>,
     [StreamText [(User, lit ''Hi'')], Toast (lit ''Error'') (lit ''Failed to generate response'')])"
  by (simp add: send_defs sampleStore_def sampleConversation_def streamRejects_def lit_def)

text \<open>
  Claim C3 fails on the code, by the same placeholder. From the state the hook starts in,
  a new conversation and two sends whose generation rejects leave the conversation with
  two messages that have the loading flag on.
\<close>

theorem sendMessage_twice_rejected_two_loading:
  "fst (startNewConversation sampleRuntime None (lit ''c1'') 1704067200000 initialStore) =
     sampleStore
   \<and> map (\<lambda>c. map (\<lambda>m. (m_id m, m_isLoading m)) (loadingMessages c))
     (conversations (fst (sendMessage sampleRuntime streamRejectsAgain
        (fst (sendMessage sampleRuntime streamRejects sampleStore (lit ''Hi''))) (lit ''Again''))))
   = [[(lit ''m2'', Some True), (lit ''m5'', Some True)]]"
  by (simp add: send_defs sampleStore_def sampleConversation_def streamRejects_def
        streamRejectsAgain_def loadingMessages_def startNewConversation_def initialStore_def
        lit_def)

text \<open>
  Claim C5 fails on the code at finalization. The generation resolves without sources:
  the message in the state gets the empty list as its sources, where the copy that is
  saved and \<open>transformDbMessage\<close> (lemma \<open>transformDbMessage_sources\<close>) read it as absent.
  Lemma \<open>sendMessage_resolved_without_sources\<close> shows the same for every run whose
  generation resolves without sources.
\<close>

theorem sendMessage_finalizes_with_empty_sources:
  "sendMessage sampleRuntime streamResolves sampleStore (lit ''Hi'') =
    (sampleStore \<lparr> conversations :=
      [\<lparr> c_id = lit ''c1'', c_title = lit ''Hi'',
         c_messages =
           [\<lparr> m_id = lit ''m1'', m_type = User, m_content = lit ''Hi'',
              m_timestamp = Date 1704067260000, m_isLoading = None, m_sources = None \<rparr>,
            \<lparr> m_id = lit ''m2'', m_type = Assistant, m_content = lit ''Hello'',
              m_timestamp = Date 1704067260000, m_isLoading = Some False,
              m_sources = Some [] \<rparr>],
         c_createdAt = Date 1704067200000, c_updatedAt = Date 1704067260000 \<rparr>] \<rparr>,
     [StreamText [(User, lit ''Hi'')]])"
  by (simp add: send_defs sampleStore_def sampleConversation_def streamRejects_def
        streamResolves_def lit_def)

end
